theory Spec2Isabelle
  imports Complex_Main
begin

section \<open>The LSRIS mathematical engine (src/utils/math.ts)\<close>

text \<open>
  The engine works on JavaScript numbers. The arguments of every function (array
  elements and scalars) are taken to be finite numbers and are modelled as reals, so
  rounding and overflow of IEEE doubles are not part of the model. The values a
  function can produce besides a finite number are kept apart in \<open>jsval\<close>:
  \<open>NaN\<close> (pushed by the smoothers before the window fills, and the result of
  arithmetic on \<open>undefined\<close>) and \<open>Undefined\<close> (an array read past the end,
  \<open>.at(-1)\<close> of an empty array). Window sizes and the number of forecast periods are
  integers.
\<close>

datatype jsval = Undefined | NaN | Num real

text \<open>\<open>isNaN(v)\<close>: \<open>undefined\<close> converts to NaN.\<close>

fun isNaN :: "jsval \<Rightarrow> bool" where
  "isNaN (Num x) = False"
| "isNaN NaN = True"
| "isNaN Undefined = True"

text \<open>\<open>v || 0\<close>: \<open>undefined\<close>, NaN and 0 are falsy.\<close>

fun orZero :: "jsval \<Rightarrow> real" where
  "orZero (Num x) = (if x = 0 then 0 else x)"
| "orZero NaN = 0"
| "orZero Undefined = 0"

text \<open>\<open>xs[i]\<close> on an array of numbers: \<open>undefined\<close> past the end.\<close>

definition idx :: "real list \<Rightarrow> nat \<Rightarrow> jsval" where
  "idx xs i = (if i < length xs then Num (xs ! i) else Undefined)"

text \<open>\<open>xs.at(-1)\<close>: the last element, \<open>undefined\<close> for the empty array.\<close>

definition atLast :: "jsval list \<Rightarrow> jsval" where
  "atLast xs = (if xs = [] then Undefined else last xs)"

text \<open>
  \<open>a / b\<close> as the smoothers use it. The divisor is 0 only for a window \<open>\<le> 0\<close>, and
  then the slice is empty and the dividend is 0 (lemmas \<open>movingAverage_dividend\<close> and
  \<open>weightedMovingAverage_dividend\<close> below), so the quotient is \<open>0/0\<close>, which is NaN.
\<close>

definition jsDiv :: "real \<Rightarrow> real \<Rightarrow> jsval" where
  "jsDiv a b = (if b = 0 then NaN else Num (a / b))"

text \<open>Addition, subtraction and \<open>==\<close> on values that may be \<open>undefined\<close> or NaN.\<close>

fun jsAdd :: "jsval \<Rightarrow> jsval \<Rightarrow> jsval" where
  "jsAdd (Num a) (Num b) = Num (a + b)"
| "jsAdd _ _ = NaN"

fun jsSub :: "jsval \<Rightarrow> jsval \<Rightarrow> jsval" where
  "jsSub (Num a) (Num b) = Num (a - b)"
| "jsSub _ _ = NaN"

fun jsEq :: "jsval \<Rightarrow> jsval \<Rightarrow> bool" where
  "jsEq (Num a) (Num b) = (a = b)"
| "jsEq Undefined Undefined = True"
| "jsEq _ _ = False"

text \<open>\<open>xs.slice(start, fin)\<close> with integer arguments; negative ones count from the end.\<close>

definition slice :: "'a list \<Rightarrow> int \<Rightarrow> int \<Rightarrow> 'a list" where
  "slice xs start fin =
     (let len = int (length xs);
          k = (if start < 0 then max (len + start) 0 else min start len);
          final = (if fin < 0 then max (len + fin) 0 else min fin len)
      in take (nat (final - k)) (drop (nat k) xs))"

text \<open>\<open>Math.round\<close>: the nearest integer, a tie going up.\<close>

definition jsRound :: "real \<Rightarrow> real" where
  "jsRound x = of_int \<lfloor>x + 1 / 2\<rfloor>"

subsection \<open>Utility functions\<close>

definition mean :: "real list \<Rightarrow> real" where
  "mean values =
     (if length values = 0 then 0
      else foldl (\<lambda>a b. a + b) 0 values / real (length values))"

definition stdDev :: "real list \<Rightarrow> real" where
  "stdDev values =
     (if length values < 2 then 0
      else (let mu = mean values
            in sqrt (foldl (\<lambda>sum v. sum + (v - mu)\<^sup>2) 0 values / real (length values))))"

subsection \<open>Linear regression\<close>

record regression =
  slope :: real
  intercept :: real
  predict :: "real \<Rightarrow> real"
  r_squared :: real

text \<open>
  The loop accumulating \<open>ssxy\<close>, \<open>ssxx\<close> and \<open>ssyy\<close> over \<open>i = 0 .. n-1\<close>. For
  \<open>n \<ge> 2\<close> the indices are not all equal, so \<open>ssxx\<close> is positive (lemma
  \<open>sum_sq_index_pos\<close> below) and no quotient of the fit has a zero divisor.
\<close>

definition regressionSums :: "real list \<Rightarrow> real list \<Rightarrow> real \<Rightarrow> real \<Rightarrow> real \<times> real \<times> real" where
  "regressionSums xs values xMean yMean =
     foldl (\<lambda>(ssxy, ssxx, ssyy) i.
              (ssxy + (xs ! i - xMean) * (values ! i - yMean),
               ssxx + (xs ! i - xMean)\<^sup>2,
               ssyy + (values ! i - yMean)\<^sup>2))
           (0, 0, 0) [0..<length values]"

definition linearRegression :: "real list \<Rightarrow> regression" where
  "linearRegression values =
     (let n = length values in
      if n < 2 then
        \<lparr>slope = 0, intercept = orZero (idx values 0),
         predict = (\<lambda>x. orZero (idx values 0)), r_squared = 0\<rparr>
      else
        (let xs = map real [0..<n];
             xMean = foldl (\<lambda>a b. a + b) 0 xs / real n;
             yMean = foldl (\<lambda>a b. a + b) 0 values / real n;
             (ssxy, ssxx, ssyy) = regressionSums xs values xMean yMean;
             slope = (if ssxx = 0 then 0 else ssxy / ssxx);
             intercept = yMean - slope * xMean;
             r_squared = (if ssyy = 0 then 0 else ssxy\<^sup>2 / (ssxx * ssyy))
         in \<lparr>slope = slope, intercept = intercept,
             predict = (\<lambda>x. slope * x + intercept), r_squared = r_squared\<rparr>))"

subsection \<open>Smoothing models\<close>

text \<open>
  In the weighted average \<open>weights[j]\<close> is read for \<open>j\<close> below the length of the
  slice, which is at most the number of weights (lemma \<open>slice_window_length\<close> below).
\<close>

definition movingAverage :: "real list \<Rightarrow> int \<Rightarrow> jsval list" where
  "movingAverage values window =
     map (\<lambda>i. if int i < window - 1 then NaN
               else (let slice = slice values (int i - window + 1) (int i + 1)
                     in jsDiv (foldl (\<lambda>a b. a + b) 0 slice) (real_of_int window)))
         [0..<length values]"

fun emaFrom :: "real \<Rightarrow> real \<Rightarrow> real list \<Rightarrow> real list" where
  "emaFrom alpha prev [] = []"
| "emaFrom alpha prev (v # vs) =
     (let e = alpha * v + (1 - alpha) * prev in e # emaFrom alpha e vs)"

definition exponentialMovingAverage :: "real list \<Rightarrow> real \<Rightarrow> real list" where
  "exponentialMovingAverage values alpha =
     (case values of [] \<Rightarrow> [] | v # vs \<Rightarrow> v # emaFrom alpha v vs)"

definition weightedMovingAverage :: "real list \<Rightarrow> int \<Rightarrow> jsval list" where
  "weightedMovingAverage values window =
     (let weights = map (\<lambda>i. real i + 1) [0..<nat window];
          weightSum = foldl (\<lambda>a b. a + b) 0 weights
      in map (\<lambda>i. if int i < window - 1 then NaN
                   else (let slice = slice values (int i - window + 1) (int i + 1);
                             weighted = foldl (\<lambda>sum (val, j). sum + val * weights ! j) 0
                                          (zip slice [0..<length slice])
                         in jsDiv weighted weightSum))
             [0..<length values])"

subsection \<open>Correlation and dispersion\<close>

definition pearsonSums :: "real list \<Rightarrow> real list \<Rightarrow> nat \<Rightarrow> real \<Rightarrow> real \<Rightarrow> real \<times> real \<times> real" where
  "pearsonSums xs ys n xMean yMean =
     foldl (\<lambda>(num, dx2, dy2) i.
              (let dx = xs ! i - xMean; dy = ys ! i - yMean
               in (num + dx * dy, dx2 + dx\<^sup>2, dy2 + dy\<^sup>2)))
           (0, 0, 0) [0..<n]"

definition pearsonCorrelation :: "real list \<Rightarrow> real list \<Rightarrow> real" where
  "pearsonCorrelation xs ys =
     (let n = min (length xs) (length ys) in
      if n < 2 then 0
      else (let xMean = mean (slice xs 0 (int n));
                yMean = mean (slice ys 0 (int n));
                (num, dx2, dy2) = pearsonSums xs ys n xMean yMean
            in if dx2 = 0 \<or> dy2 = 0 then 0 else num / sqrt (dx2 * dy2)))"

definition coefficientOfVariation :: "real list \<Rightarrow> real" where
  "coefficientOfVariation values =
     (let mu = mean values in if mu = 0 then 0 else stdDev values / mu)"

subsection \<open>Sensitivity simulation\<close>

record sensitivityResult =
  scenario :: string
  price_change :: real
  quantity_change :: real
  estimated_revenue :: real
  estimated_profit :: real

definition scenarios :: "(string \<times> real \<times> real) list" where
  "scenarios =
     [(''Base'', 0, 0),
      (''+5% Price'', 5 / 100, 0),
      (''-5% Price'', - (5 / 100), 0),
      (''+10% Qty'', 0, 10 / 100),
      (''-10% Qty'', 0, - (10 / 100)),
      (''+5% Price, +10% Qty'', 5 / 100, 10 / 100),
      (''-5% Price, -10% Qty'', - (5 / 100), - (10 / 100))]"

definition sensitivitySimulation :: "real \<Rightarrow> real \<Rightarrow> real \<Rightarrow> real \<Rightarrow> sensitivityResult list" where
  "sensitivitySimulation baseRevenue baseQuantity basePrice totalCost =
     map (\<lambda>(label, priceD, qtyD).
            (let newPrice = basePrice * (1 + priceD);
                 newQty = baseQuantity * (1 + qtyD);
                 rev = newPrice * newQty
             in \<lparr>scenario = label,
                 price_change = priceD * 100,
                 quantity_change = qtyD * 100,
                 estimated_revenue = rev,
                 estimated_profit = rev - totalCost\<rparr>))
         scenarios"

subsection \<open>Enterprise health index\<close>

record healthParams =
  cagr :: real
  cv :: real
  profit_margin :: real
  mape :: real

record healthComponents =
  growth :: real
  stability :: real
  profitability :: real
  forecast_reliability :: real

record healthIndex =
  score :: real
  components :: healthComponents

definition growthScore :: "healthParams \<Rightarrow> real" where
  "growthScore params = min 100 (max 0 (50 + cagr params * 100))"

definition stabilityScore :: "healthParams \<Rightarrow> real" where
  "stabilityScore params = min 100 (max 0 ((1 - cv params) * 100))"

definition profitScore :: "healthParams \<Rightarrow> real" where
  "profitScore params = min 100 (max 0 (profit_margin params * 2))"

definition forecastScore :: "healthParams \<Rightarrow> real" where
  "forecastScore params = min 100 (max 0 (100 - mape params * 2))"

definition enterpriseHealthIndex :: "healthParams \<Rightarrow> healthIndex" where
  "enterpriseHealthIndex params =
     (let score = 25 / 100 * growthScore params + 25 / 100 * stabilityScore params
                  + 25 / 100 * profitScore params + 25 / 100 * forecastScore params
      in \<lparr>score = jsRound score,
          components = \<lparr>growth = jsRound (growthScore params),
                        stability = jsRound (stabilityScore params),
                        profitability = jsRound (profitScore params),
                        forecast_reliability = jsRound (forecastScore params)\<rparr>\<rparr>)"

subsection \<open>Structural break detection\<close>

text \<open>The \<open>for\<close> loop from \<open>i = 5\<close> while \<open>i < values.length - 5\<close>, pushing flagged indices.\<close>

function breakLoop :: "real list \<Rightarrow> real \<Rightarrow> real \<Rightarrow> nat \<Rightarrow> nat list \<Rightarrow> nat list" where
  "breakLoop values sensitivity sigma i breakPoints =
     (if int i < int (length values) - 5 then
        (let left = slice values (max 0 (int i - 5)) (int i);
             right = slice values (int i) (min (int (length values)) (int i + 5))
         in breakLoop values sensitivity sigma (i + 1)
              (if \<bar>mean left - mean right\<bar> > sensitivity * sigma
               then breakPoints @ [i] else breakPoints))
      else breakPoints)"
  by pat_completeness auto
termination
  by (relation "measure (\<lambda>(values, sensitivity, sigma, i, breakPoints). length values - i)") auto

definition detectStructuralBreaks :: "real list \<Rightarrow> real \<Rightarrow> nat list" where
  "detectStructuralBreaks values sensitivity =
     (let sigma = stdDev values in breakLoop values sensitivity sigma 5 [])"

subsection \<open>Additive decomposition\<close>

text \<open>
  \<open>new Date(s).getDay()\<close> depends on the host's date parser and time zone, so it is a
  parameter \<open>getDay\<close>: \<open>Some d\<close> with \<open>d \<le> 6\<close> for a date the host accepts, \<open>None\<close>
  for the NaN of an invalid date. A date read past the end of \<open>dates\<close> is
  \<open>undefined\<close>, which is an invalid date as well.
\<close>

record decompositionPoint =
  date :: string
  revenue :: jsval
  trend :: jsval
  seasonal :: jsval
  residual :: jsval

definition dayOf :: "(string \<Rightarrow> nat option) \<Rightarrow> string list \<Rightarrow> nat \<Rightarrow> nat option" where
  "dayOf getDay dates i = (if i < length dates then getDay (dates ! i) else None)"

text \<open>
  The loop filling \<open>weekdayTotals\<close> and \<open>weekdayCounts\<close>. With a NaN weekday the two
  writes go to a property named \<open>NaN\<close> and leave the seven slots as they are.
\<close>

definition weekdayLoop ::
  "(string \<Rightarrow> nat option) \<Rightarrow> string list \<Rightarrow> real list \<Rightarrow> real list \<Rightarrow> real list \<times> nat list" where
  "weekdayLoop getDay dates revenues trends =
     foldl (\<lambda>(weekdayTotals, weekdayCounts) i.
              (case dayOf getDay dates i of
                 None \<Rightarrow> (weekdayTotals, weekdayCounts)
               | Some dow \<Rightarrow>
                   (weekdayTotals[dow := weekdayTotals ! dow + (revenues ! i - trends ! i)],
                    weekdayCounts[dow := weekdayCounts ! dow + 1])))
           (replicate 7 0, replicate 7 0) [0..<length revenues]"

definition additiveDecomposition ::
  "(string \<Rightarrow> nat option) \<Rightarrow> string list \<Rightarrow> real list \<Rightarrow> decompositionPoint list" where
  "additiveDecomposition getDay dates revenues =
     (let reg = linearRegression revenues;
          trends = map (\<lambda>i. predict reg (real i)) [0..<length revenues];
          (weekdayTotals, weekdayCounts) = weekdayLoop getDay dates revenues trends;
          weekdayAvg = map (\<lambda>i. if weekdayCounts ! i > 0
                                 then weekdayTotals ! i / real (weekdayCounts ! i) else 0)
                           [0..<length weekdayTotals];
          avgSeasonal = mean weekdayAvg;
          seasonalAdj = map (\<lambda>s. s - avgSeasonal) weekdayAvg
      in map (\<lambda>i. (let seasonal = (case getDay (dates ! i) of
                                      None \<Rightarrow> Undefined
                                    | Some dow \<Rightarrow> idx seasonalAdj dow);
                        trend = idx trends i
                    in \<lparr>date = dates ! i, revenue = idx revenues i, trend = trend,
                        seasonal = seasonal,
                        residual = jsSub (jsSub (idx revenues i) trend) seasonal\<rparr>))
             [0..<length dates])"

subsection \<open>Forecast\<close>

record forecastPoint =
  linear :: real
  ma :: real
  ema :: real
  wma :: real
  lower :: real
  upper :: real

text \<open>
  The residuals of finite revenues are finite numbers, which \<open>isNaN\<close> tests as such;
  \<open>Array.from({length: periods}, ...)\<close> has no element for a negative \<open>periods\<close>.
\<close>

definition generateForecast :: "real list \<Rightarrow> int \<Rightarrow> int \<Rightarrow> real \<Rightarrow> forecastPoint list" where
  "generateForecast revenues periods maWindow emaAlpha =
     (let reg = linearRegression revenues;
          emaVals = exponentialMovingAverage revenues emaAlpha;
          residuals = map (\<lambda>i. revenues ! i - predict reg (real i)) [0..<length revenues];
          se = stdDev (filter (\<lambda>r. \<not> isNaN (Num r)) residuals);
          lastMA = orZero (atLast (filter (\<lambda>v. \<not> isNaN v) (movingAverage revenues maWindow)));
          lastEMA = orZero (atLast (map Num emaVals));
          wmaVals = weightedMovingAverage revenues maWindow;
          lastWMA = orZero (atLast (filter (\<lambda>v. \<not> isNaN v) wmaVals));
          n = length revenues
      in map (\<lambda>i. (let x = real (n + i);
                        linear = predict reg x
                    in \<lparr>linear = linear, ma = lastMA, ema = lastEMA, wma = lastWMA,
                        lower = linear - 196 / 100 * se,
                        upper = linear + 196 / 100 * se\<rparr>))
             [0..<nat periods])"

subsection \<open>Reference definitions\<close>

text \<open>The mean of the five points at indices \<open>a, ..., a + 4\<close> of a series.\<close>

definition windowMean :: "real list \<Rightarrow> nat \<Rightarrow> real" where
  "windowMean values a =
     (values ! a + values ! (a + 1) + values ! (a + 2) + values ! (a + 3) + values ! (a + 4)) / 5"

text \<open>The defined values of a smoothed series, in order: its entries that are numbers.\<close>

fun definedValues :: "jsval list \<Rightarrow> real list" where
  "definedValues [] = []"
| "definedValues (Num x # vs) = x # definedValues vs"
| "definedValues (NaN # vs) = definedValues vs"
| "definedValues (Undefined # vs) = definedValues vs"

text \<open>
  A weekday function for the examples: 1 and 8 January 2024 are Mondays (weekday 1),
  2 January 2024 is a Tuesday (weekday 2), and a string that is not a date has none.
\<close>

definition getDayExample :: "string \<Rightarrow> nat option" where
  "getDayExample s =
     (if s = ''2024-01-01'' then Some 1
      else if s = ''2024-01-02'' then Some 2
      else if s = ''2024-01-08'' then Some 1
      else None)"

section \<open>Properties\<close>

subsection \<open>Auxiliary facts\<close>

lemma foldl_add: "foldl (\<lambda>a b. a + b) a xs = a + sum_list (xs::real list)"
  by (induction xs arbitrary: a) simp_all

lemma mean_sum_list: "mean xs = (if xs = [] then 0 else sum_list xs / real (length xs))"
  by (simp add: mean_def foldl_add)

lemma jsRound_int: "jsRound x \<in> \<int>"
  by (simp add: jsRound_def)

lemma jsRound_bounds: "0 \<le> x \<Longrightarrow> x \<le> 100 \<Longrightarrow> 0 \<le> jsRound x \<and> jsRound x \<le> 100"
  unfolding jsRound_def by (simp add: floor_le_iff le_floor_iff)

subsection \<open>Enterprise health index\<close>

text \<open>
  C1. The health index of \<open>cagr = 0\<close>, \<open>cv = 0\<close>, \<open>profit_margin = 0.25\<close> (a
  fraction) and \<open>mape = 0\<close> should have the components growth 50, stability 100,
  profitability 50 and forecast reliability 100, and the score 75. The function
  computes the profitability sub-score \<open>0.25 * 2 = 0.5\<close>, displayed as 1, and the
  score \<open>round 62.625 = 63\<close>; the other three components are as expected. The margin
  is multiplied by 2 where the other fractions are scaled by 100, so a margin given as
  a fraction does not reach the 50 and the 75 that the comment in the source (a margin
  of 50 percent gives 100) and the callers (which pass \<open>profit / revenue\<close>) expect.
\<close>

theorem enterpriseHealthIndex_quarter_margin:
  "enterpriseHealthIndex \<lparr>cagr = 0, cv = 0, profit_margin = 25 / 100, mape = 0\<rparr> =
     \<lparr>score = 63,
      components = \<lparr>growth = 50, stability = 100, profitability = 1,
                    forecast_reliability = 100\<rparr>\<rparr>"
  by (simp add: enterpriseHealthIndex_def growthScore_def stabilityScore_def
      profitScore_def forecastScore_def jsRound_def)

text \<open>
  C2. For all real inputs the score is the rounding of the sum of the four sub-scores
  weighted 0.25 each, every sub-score clamped to \<open>[0, 100]\<close> before the sum; the score
  and the four displayed components are integers in \<open>[0, 100]\<close>.
\<close>

theorem enterpriseHealthIndex_range:
  fixes params :: healthParams
  defines "g \<equiv> min 100 (max 0 (50 + cagr params * 100))"
      and "s \<equiv> min 100 (max 0 ((1 - cv params) * 100))"
      and "p \<equiv> min 100 (max 0 (profit_margin params * 2))"
      and "f \<equiv> min 100 (max 0 (100 - mape params * 2))"
      and "r \<equiv> enterpriseHealthIndex params"
  shows "score r = jsRound (25 / 100 * g + 25 / 100 * s + 25 / 100 * p + 25 / 100 * f)
       \<and> score r \<in> \<int> \<and> 0 \<le> score r \<and> score r \<le> 100
       \<and> growth (components r) = jsRound g \<and> growth (components r) \<in> \<int>
       \<and> 0 \<le> growth (components r) \<and> growth (components r) \<le> 100
       \<and> stability (components r) = jsRound s \<and> stability (components r) \<in> \<int>
       \<and> 0 \<le> stability (components r) \<and> stability (components r) \<le> 100
       \<and> profitability (components r) = jsRound p \<and> profitability (components r) \<in> \<int>
       \<and> 0 \<le> profitability (components r) \<and> profitability (components r) \<le> 100
       \<and> forecast_reliability (components r) = jsRound f
       \<and> forecast_reliability (components r) \<in> \<int>
       \<and> 0 \<le> forecast_reliability (components r)
       \<and> forecast_reliability (components r) \<le> 100"
proof -
  have bg: "0 \<le> g" "g \<le> 100" and bs: "0 \<le> s" "s \<le> 100"
    and bp: "0 \<le> p" "p \<le> 100" and bf: "0 \<le> f" "f \<le> 100"
    by (simp_all add: g_def s_def p_def f_def)
  have bsum: "0 \<le> 25 / 100 * g + 25 / 100 * s + 25 / 100 * p + 25 / 100 * f"
             "25 / 100 * g + 25 / 100 * s + 25 / 100 * p + 25 / 100 * f \<le> 100"
    using bg bs bp bf by simp_all
  have sc: "score r = jsRound (25 / 100 * g + 25 / 100 * s + 25 / 100 * p + 25 / 100 * f)"
    by (simp add: r_def enterpriseHealthIndex_def Let_def growthScore_def stabilityScore_def
        profitScore_def forecastScore_def g_def s_def p_def f_def)
  have cg: "growth (components r) = jsRound g"
    by (simp add: r_def enterpriseHealthIndex_def Let_def growthScore_def g_def)
  have cs: "stability (components r) = jsRound s"
    by (simp add: r_def enterpriseHealthIndex_def Let_def stabilityScore_def s_def)
  have cp: "profitability (components r) = jsRound p"
    by (simp add: r_def enterpriseHealthIndex_def Let_def profitScore_def p_def)
  have cf: "forecast_reliability (components r) = jsRound f"
    by (simp add: r_def enterpriseHealthIndex_def Let_def forecastScore_def f_def)
  show ?thesis
    using jsRound_bounds[OF bsum] jsRound_bounds[OF bg] jsRound_bounds[OF bs]
      jsRound_bounds[OF bp] jsRound_bounds[OF bf]
    by (simp only: sc cg cs cp cf jsRound_int simp_thms)
qed

subsection \<open>Sensitivity simulation\<close>

text \<open>
  C6. For every baseline the simulation returns exactly 7 scenarios, in the order Base,
  price +5 percent, price -5 percent, quantity +10 percent, quantity -10 percent, price
  +5 percent with quantity +10 percent, price -5 percent with quantity -10 percent (the
  source labels the two combined ones
  \<open>+5% Price, +10% Qty\<close> and \<open>-5% Price, -10% Qty\<close>); the estimated revenue of each
  is \<open>basePrice * (1 + dp) * (baseQuantity * (1 + dq))\<close>, its estimated profit is that
  revenue minus \<open>totalCost\<close>, and the revenue of Base is \<open>basePrice * baseQuantity\<close>.
\<close>

theorem sensitivitySimulation_scenarios:
  "map (\<lambda>r. (scenario r, estimated_revenue r, estimated_profit r))
       (sensitivitySimulation baseRevenue baseQuantity basePrice totalCost) =
     [(''Base'', basePrice * baseQuantity, basePrice * baseQuantity - totalCost),
      (''+5% Price'', basePrice * (1 + 5 / 100) * (baseQuantity * (1 + 0)),
         basePrice * (1 + 5 / 100) * (baseQuantity * (1 + 0)) - totalCost),
      (''-5% Price'', basePrice * (1 + - (5 / 100)) * (baseQuantity * (1 + 0)),
         basePrice * (1 + - (5 / 100)) * (baseQuantity * (1 + 0)) - totalCost),
      (''+10% Qty'', basePrice * (1 + 0) * (baseQuantity * (1 + 10 / 100)),
         basePrice * (1 + 0) * (baseQuantity * (1 + 10 / 100)) - totalCost),
      (''-10% Qty'', basePrice * (1 + 0) * (baseQuantity * (1 + - (10 / 100))),
         basePrice * (1 + 0) * (baseQuantity * (1 + - (10 / 100))) - totalCost),
      (''+5% Price, +10% Qty'',
         basePrice * (1 + 5 / 100) * (baseQuantity * (1 + 10 / 100)),
         basePrice * (1 + 5 / 100) * (baseQuantity * (1 + 10 / 100)) - totalCost),
      (''-5% Price, -10% Qty'',
         basePrice * (1 + - (5 / 100)) * (baseQuantity * (1 + - (10 / 100))),
         basePrice * (1 + - (5 / 100)) * (baseQuantity * (1 + - (10 / 100))) - totalCost)]
   \<and> length (sensitivitySimulation baseRevenue baseQuantity basePrice totalCost) = 7"
  by (simp add: sensitivitySimulation_def scenarios_def Let_def)

subsection \<open>Smoothing models\<close>

lemma slice_window_empty:
  "window \<le> 0 \<Longrightarrow> slice xs (int i - window + 1) (int i + 1) = []"
  by (simp add: slice_def Let_def min_def)

lemma slice_window_length:
  "\<not> int i < window - 1 \<Longrightarrow>
   length (slice xs (int i - window + 1) (int i + 1)) \<le> nat window"
  unfolding slice_def Let_def by (simp add: min_def) linarith

lemma movingAverage_dividend:
  "real_of_int window = 0 \<Longrightarrow>
   foldl (\<lambda>a b. a + b) 0 (slice values (int i - window + 1) (int i + 1)) = 0"
  using slice_window_empty[of window "values" i] by simp

lemma weightSum_pos:
  assumes "1 \<le> window"
  shows "0 < foldl (\<lambda>a b. a + b) 0 (map (\<lambda>i. real i + 1) [0..<nat window])"
proof -
  have "[0..<nat window] = 0 # [Suc 0..<nat window]"
    using assms by (simp add: upt_conv_Cons)
  then have "sum_list (map (\<lambda>i. real i + 1) [0..<nat window])
      = 1 + sum_list (map (\<lambda>i. real i + 1) [Suc 0..<nat window])"
    by simp
  moreover have "0 \<le> sum_list (map (\<lambda>i. real i + 1) [Suc 0..<nat window])"
    by (rule sum_list_nonneg) auto
  ultimately show ?thesis by (simp add: foldl_add)
qed

lemma weightedMovingAverage_dividend:
  assumes "foldl (\<lambda>a b. a + b) 0 (map (\<lambda>i. real i + 1) [0..<nat window]) = 0"
  shows "foldl (\<lambda>sum (val, j). sum + val * weights ! j) 0
           (zip (slice values (int i - window + 1) (int i + 1))
                [0..<length (slice values (int i - window + 1) (int i + 1))]) = 0"
proof -
  have "window \<le> 0"
    using weightSum_pos[of window] assms by (cases "1 \<le> window") simp_all
  then show ?thesis by (simp add: slice_window_empty)
qed

lemma movingAverage_length: "length (movingAverage values window) = length values"
  by (simp add: movingAverage_def)

lemma weightedMovingAverage_length: "length (weightedMovingAverage values window) = length values"
  by (simp add: weightedMovingAverage_def Let_def)

lemma movingAverage_nth:
  "i < length values \<Longrightarrow> movingAverage values window ! i =
     (if int i < window - 1 then NaN
      else jsDiv (foldl (\<lambda>a b. a + b) 0 (slice values (int i - window + 1) (int i + 1)))
                 (real_of_int window))"
  by (simp add: movingAverage_def Let_def)

lemma weightedMovingAverage_nth:
  "i < length values \<Longrightarrow> weightedMovingAverage values window ! i =
     (if int i < window - 1 then NaN
      else jsDiv (foldl (\<lambda>sum (val, j). sum + val * map (\<lambda>i. real i + 1) [0..<nat window] ! j) 0
                    (zip (slice values (int i - window + 1) (int i + 1))
                         [0..<length (slice values (int i - window + 1) (int i + 1))]))
                 (foldl (\<lambda>a b. a + b) 0 (map (\<lambda>i. real i + 1) [0..<nat window])))"
  by (simp add: weightedMovingAverage_def Let_def)

lemma emaFrom_length: "length (emaFrom alpha prev vs) = length vs"
  by (induction vs arbitrary: prev) (simp_all add: Let_def)

lemma exponentialMovingAverage_length:
  "length (exponentialMovingAverage values alpha) = length values"
  by (simp add: exponentialMovingAverage_def emaFrom_length split: list.splits)

text \<open>
  C8. For every series and every window \<open>w \<ge> 1\<close>, the simple and the weighted moving
  average have the length of the input; at a position \<open>i < w - 1\<close> they hold NaN, a
  marker different from every number and from 0 in particular, and at a position
  \<open>i \<ge> w - 1\<close> they hold a number. The exponential moving average has the length of
  the input, all its entries are numbers, and its first entry is the first input value.
\<close>

theorem smoothers_shape:
  assumes "1 \<le> w"
  shows "length (movingAverage values w) = length values
       \<and> length (weightedMovingAverage values w) = length values
       \<and> length (exponentialMovingAverage values alpha) = length values
       \<and> (i < length values \<and> int i < w - 1 \<longrightarrow>
            movingAverage values w ! i = NaN \<and> movingAverage values w ! i \<noteq> Num 0
          \<and> weightedMovingAverage values w ! i = NaN
          \<and> weightedMovingAverage values w ! i \<noteq> Num 0)
       \<and> (i < length values \<and> w - 1 \<le> int i \<longrightarrow>
            (\<exists>x. movingAverage values w ! i = Num x)
          \<and> (\<exists>y. weightedMovingAverage values w ! i = Num y))
       \<and> (values \<noteq> [] \<longrightarrow> exponentialMovingAverage values alpha ! 0 = values ! 0)"
proof -
  have w0: "real_of_int w \<noteq> 0" using assms(1) by simp
  have ws: "foldl (\<lambda>a b. a + b) 0 (map (\<lambda>i. real i + 1) [0..<nat w]) \<noteq> 0"
    using weightSum_pos[OF assms(1)] by simp
  have ma: "i < length values \<and> int i < w - 1 \<longrightarrow> movingAverage values w ! i = NaN"
    by (simp add: movingAverage_nth)
  have wma: "i < length values \<and> int i < w - 1 \<longrightarrow> weightedMovingAverage values w ! i = NaN"
    by (simp add: weightedMovingAverage_nth)
  have ma': "i < length values \<and> w - 1 \<le> int i \<longrightarrow> (\<exists>x. movingAverage values w ! i = Num x)"
    using w0 by (simp add: movingAverage_nth jsDiv_def)
  have wma': "i < length values \<and> w - 1 \<le> int i \<longrightarrow>
      (\<exists>y. weightedMovingAverage values w ! i = Num y)"
    using ws by (simp add: weightedMovingAverage_nth jsDiv_def)
  have ema: "values \<noteq> [] \<longrightarrow> exponentialMovingAverage values alpha ! 0 = values ! 0"
    by (cases "values") (simp_all add: exponentialMovingAverage_def)
  show ?thesis
    using ma wma ma' wma' ema
    by (simp add: movingAverage_length weightedMovingAverage_length
        exponentialMovingAverage_length)
qed

theorem smoothers_shape_witness:
  "(1::int) \<le> 3 \<and> (1::nat) < length [4, 6, 8, 10 :: real] \<and> [4, 6, 8, 10 :: real] \<noteq> []
   \<and> length (movingAverage [4, 6, 8, 10] 3) = 4
   \<and> movingAverage [4, 6, 8, 10] 3 ! 1 = NaN
   \<and> weightedMovingAverage [4, 6, 8, 10] 3 ! 1 = NaN
   \<and> (\<exists>x. movingAverage [4, 6, 8, 10] 3 ! 2 = Num x)
   \<and> (\<exists>y. weightedMovingAverage [4, 6, 8, 10] 3 ! 2 = Num y)
   \<and> exponentialMovingAverage [4, 6, 8, 10] (3 / 10) ! 0 = 4"
  using smoothers_shape[of 3 "[4, 6, 8, 10]" "3 / 10" 1]
        smoothers_shape[of 3 "[4, 6, 8, 10]" "3 / 10" 2]
  by simp

subsection \<open>Structural break detection\<close>

lemma take5_drop:
  assumes "a + 5 \<le> length xs"
  shows "take 5 (drop a xs) = [xs ! a, xs ! (a + 1), xs ! (a + 2), xs ! (a + 3), xs ! (a + 4)]"
proof (rule nth_equalityI)
  show "length (take 5 (drop a xs)) = length [xs ! a, xs ! (a + 1), xs ! (a + 2), xs ! (a + 3), xs ! (a + 4)]"
    using assms by simp
next
  fix i assume "i < length (take 5 (drop a xs))"
  then have "i < 5" by simp
  then consider "i = 0" | "i = 1" | "i = 2" | "i = 3" | "i = 4" by linarith
  then show "take 5 (drop a xs) ! i = [xs ! a, xs ! (a + 1), xs ! (a + 2), xs ! (a + 3), xs ! (a + 4)] ! i"
    using assms by cases simp_all
qed

lemma mean_left:
  assumes "5 \<le> i" and "i + 5 < length values"
  shows "mean (slice values (max 0 (int i - 5)) (int i)) = windowMean values (i - 5)"
proof -
  have "slice values (max 0 (int i - 5)) (int i) = take 5 (drop (i - 5) values)"
    using assms by (simp add: slice_def Let_def max_def min_def nat_diff_distrib')
  also have "\<dots> = [values ! (i - 5), values ! (i - 5 + 1), values ! (i - 5 + 2),
                     values ! (i - 5 + 3), values ! (i - 5 + 4)]"
    using assms by (intro take5_drop) simp
  finally show ?thesis by (simp add: mean_sum_list windowMean_def)
qed

lemma mean_right:
  assumes "i + 5 < length values"
  shows "mean (slice values (int i) (min (int (length values)) (int i + 5))) = windowMean values i"
proof -
  have "slice values (int i) (min (int (length values)) (int i + 5)) = take 5 (drop i values)"
    using assms by (simp add: slice_def Let_def max_def min_def)
  also have "\<dots> = [values ! i, values ! (i + 1), values ! (i + 2), values ! (i + 3), values ! (i + 4)]"
    using assms by (intro take5_drop) simp
  finally show ?thesis by (simp add: mean_sum_list windowMean_def)
qed

lemma breakLoop_filter:
  "breakLoop values s sigma i acc =
     acc @ filter (\<lambda>i. \<bar>mean (slice values (max 0 (int i - 5)) (int i))
                       - mean (slice values (int i) (min (int (length values)) (int i + 5)))\<bar>
                     > s * sigma)
                  [i..<length values - 5]"
proof (induction "values" s sigma i acc rule: breakLoop.induct)
  case (1 vs s sigma i acc)
  show ?case
  proof (cases "int i < int (length vs) - 5")
    case True
    then have lt: "i < length vs - 5" by linarith
    show ?thesis
      using True "1.IH"[OF True refl refl]
      by (subst breakLoop.simps) (simp add: Let_def upt_conv_Cons[OF lt])
  next
    case False
    then have "\<not> i < length vs - 5" by linarith
    then show ?thesis using False
      by (subst breakLoop.simps) simp
  qed
qed

lemma detectStructuralBreaks_filter:
  "detectStructuralBreaks values s =
     filter (\<lambda>i. \<bar>windowMean values (i - 5) - windowMean values i\<bar> > s * stdDev values)
            [5..<length values - 5]"
proof -
  have "\<bar>mean (slice values (max 0 (int i - 5)) (int i))
          - mean (slice values (int i) (min (int (length values)) (int i + 5)))\<bar>
        = \<bar>windowMean values (i - 5) - windowMean values i\<bar>"
    if "i \<in> set [5..<length values - 5]" for i
  proof -
    from that have "5 \<le> i" and "i + 5 < length values" by auto
    then show ?thesis by (simp only: mean_left mean_right)
  qed
  then have "filter (\<lambda>i. \<bar>mean (slice values (max 0 (int i - 5)) (int i))
                       - mean (slice values (int i) (min (int (length values)) (int i + 5)))\<bar>
                     > s * stdDev values) [5..<length values - 5]
      = filter (\<lambda>i. \<bar>windowMean values (i - 5) - windowMean values i\<bar> > s * stdDev values)
            [5..<length values - 5]"
    by (intro filter_cong refl) (simp only:)
  then show ?thesis
    by (simp only: detectStructuralBreaks_def Let_def breakLoop_filter append_Nil)
qed

text \<open>
  C5. For every series of length \<open>n\<close> and every sensitivity \<open>s\<close>, the detector returns
  exactly the indices \<open>i\<close> with \<open>5 \<le> i \<le> n - 6\<close> at which the mean of the five
  points left of \<open>i\<close> (indices \<open>i - 5, ..., i - 1\<close>) and the mean of the five points
  from \<open>i\<close> on (indices \<open>i, ..., i + 4\<close>) differ in absolute value by more than
  \<open>s\<close> times the standard deviation of the whole series; they come in ascending
  order, each once, adjacent ones not merged.
\<close>

theorem detectStructuralBreaks_flags:
  "detectStructuralBreaks values s =
     filter (\<lambda>i. \<bar>windowMean values (i - 5) - windowMean values i\<bar> > s * stdDev values)
            [5..<length values - 5]
   \<and> (i \<in> set (detectStructuralBreaks values s) \<longleftrightarrow>
        5 \<le> i \<and> i + 6 \<le> length values
        \<and> \<bar>windowMean values (i - 5) - windowMean values i\<bar> > s * stdDev values)
   \<and> sorted (detectStructuralBreaks values s)
   \<and> distinct (detectStructuralBreaks values s)"
proof -
  note f = detectStructuralBreaks_filter[of "values" s]
  have m: "i \<in> set (detectStructuralBreaks values s) \<longleftrightarrow>
        5 \<le> i \<and> i + 6 \<le> length values
        \<and> \<bar>windowMean values (i - 5) - windowMean values i\<bar> > s * stdDev values"
    unfolding f by auto
  have so: "sorted (detectStructuralBreaks values s)"
    unfolding f by (rule sorted_filter[where f = "\<lambda>x. x", simplified]) simp
  have di: "distinct (detectStructuralBreaks values s)"
    unfolding f by simp
  show ?thesis using f m so di by blast
qed

theorem detectStructuralBreaks_flags_witness:
  "detectStructuralBreaks [- 1, - 1, - 1, - 1, - 1, - 1, 1, 1, 1, 1, 1, 1] (3 / 2) = [5, 6]"
proof -
  have sd: "stdDev [- 1, - 1, - 1, - 1, - 1, - 1, 1, 1, 1, 1, 1, 1] = 1"
    by (simp add: stdDev_def mean_def)
  have u: "[5..<7] = [5, 6::nat]" by (simp add: upt_rec)
  show ?thesis
    using detectStructuralBreaks_flags[of "[- 1, - 1, - 1, - 1, - 1, - 1, 1, 1, 1, 1, 1, 1]" "3 / 2" 0]
    by (simp add: sd u windowMean_def)
qed

subsection \<open>Linear regression\<close>

lemma foldl_triple_sum:
  "foldl (\<lambda>(a, b, c) i. (a + f i, b + g i, c + h i)) (a0, b0, c0) is =
     (a0 + sum_list (map f is), b0 + sum_list (map g is), c0 + (sum_list (map h is) :: real))"
  for f g h :: "nat \<Rightarrow> real"
  by (induction "is" arbitrary: a0 b0 c0) simp_all

lemma regressionSums_sum:
  "regressionSums xs values xMean yMean =
     (sum_list (map (\<lambda>i. (xs ! i - xMean) * (values ! i - yMean)) [0..<length values]),
      sum_list (map (\<lambda>i. (xs ! i - xMean)\<^sup>2) [0..<length values]),
      sum_list (map (\<lambda>i. (values ! i - yMean)\<^sup>2) [0..<length values]))"
  unfolding regressionSums_def
  using foldl_triple_sum[of "\<lambda>i. (xs ! i - xMean) * (values ! i - yMean)"
      "\<lambda>i. (xs ! i - xMean)\<^sup>2" "\<lambda>i. (values ! i - yMean)\<^sup>2" 0 0 0 "[0..<length values]"]
  by simp

lemma pearsonSums_sum:
  "pearsonSums xs ys n xMean yMean =
     (sum_list (map (\<lambda>i. (xs ! i - xMean) * (ys ! i - yMean)) [0..<n]),
      sum_list (map (\<lambda>i. (xs ! i - xMean)\<^sup>2) [0..<n]),
      sum_list (map (\<lambda>i. (ys ! i - yMean)\<^sup>2) [0..<n]))"
  unfolding pearsonSums_def Let_def
  using foldl_triple_sum[of "\<lambda>i. (xs ! i - xMean) * (ys ! i - yMean)"
      "\<lambda>i. (xs ! i - xMean)\<^sup>2" "\<lambda>i. (ys ! i - yMean)\<^sup>2" 0 0 0 "[0..<n]"]
  by simp

lemma linearRegression_short:
  assumes "length vs < 2"
  shows "linearRegression vs =
     \<lparr>slope = 0, intercept = (if vs = [] then 0 else vs ! 0),
      predict = (\<lambda>x. if vs = [] then 0 else vs ! 0), r_squared = 0\<rparr>"
  using assms by (simp add: linearRegression_def idx_def)

lemma predict_linear:
  "predict (linearRegression vs) x = slope (linearRegression vs) * x + intercept (linearRegression vs)"
  by (simp add: linearRegression_def Let_def split: prod.splits)

lemma sum_sq_index_pos:
  assumes "2 \<le> n"
  shows "0 < sum_list (map (\<lambda>i. (real i - m)\<^sup>2) [0..<n])"
proof -
  have nn: "0 \<le> x" if "x \<in> set (map (\<lambda>i. (real i - m)\<^sup>2) [0..<n])" for x
    using that by auto
  have "sum_list (map (\<lambda>i. (real i - m)\<^sup>2) [0..<n]) \<noteq> 0"
  proof
    assume "sum_list (map (\<lambda>i. (real i - m)\<^sup>2) [0..<n]) = 0"
    then have z: "\<forall>x \<in> set (map (\<lambda>i. (real i - m)\<^sup>2) [0..<n]). x = 0"
      using sum_list_nonneg_eq_0_iff[OF nn] by blast
    have "(real 0 - m)\<^sup>2 = 0" and "(real 1 - m)\<^sup>2 = 0"
      using z assms by auto
    then show False by simp
  qed
  moreover have "0 \<le> sum_list (map (\<lambda>i. (real i - m)\<^sup>2) [0..<n])"
    by (rule sum_list_nonneg) auto
  ultimately show ?thesis by linarith
qed

text \<open>
  C9. For every \<open>n \<ge> 2\<close> the regression of the series \<open>[0, 1, ..., n - 1]\<close> has slope
  1, intercept 0 and \<open>r_squared\<close> 1, exactly, in real arithmetic.
\<close>

theorem linearRegression_identity_series:
  assumes "2 \<le> n"
  shows "slope (linearRegression (map real [0..<n])) = 1
       \<and> intercept (linearRegression (map real [0..<n])) = 0
       \<and> r_squared (linearRegression (map real [0..<n])) = 1"
proof -
  define vs where "vs = map real [0..<n]"
  define m where "m = sum_list vs / real n"
  define S where "S = sum_list (map (\<lambda>i. (real i - m)\<^sup>2) [0..<n])"
  have len: "length vs = n" by (simp add: vs_def)
  have S_pos: "0 < S" unfolding S_def by (rule sum_sq_index_pos[OF assms])
  have xy: "sum_list (map (\<lambda>i. (vs ! i - m) * (vs ! i - m)) [0..<n]) = S"
    unfolding S_def vs_def
    by (rule arg_cong[where f = sum_list], rule map_cong) (simp_all add: power2_eq_square)
  have xx: "sum_list (map (\<lambda>i. (vs ! i - m)\<^sup>2) [0..<n]) = S"
    unfolding S_def vs_def
    by (rule arg_cong[where f = sum_list], rule map_cong) simp_all
  have sums: "regressionSums vs vs m m = (S, S, S)"
    by (simp add: regressionSums_sum len xy xx)
  have lr: "linearRegression vs =
      \<lparr>slope = 1, intercept = 0, predict = (\<lambda>x. 1 * x + (m - 1 * m)), r_squared = 1\<rparr>"
    using assms S_pos
    by (simp add: linearRegression_def Let_def len foldl_add vs_def[symmetric]
        m_def[symmetric] sums power2_eq_square)
  show ?thesis by (simp add: vs_def[symmetric] lr)
qed

theorem linearRegression_identity_series_witness:
  "(2::nat) \<le> 4
   \<and> slope (linearRegression [0, 1, 2, 3]) = 1
   \<and> intercept (linearRegression [0, 1, 2, 3]) = 0
   \<and> r_squared (linearRegression [0, 1, 2, 3]) = 1"
proof -
  have u: "map real [0..<4] = [0, 1, 2, 3]" by (simp add: upt_rec)
  show ?thesis using linearRegression_identity_series[of 4] by (simp add: u)
qed

subsection \<open>Descriptive core and correlation\<close>

lemma foldl_sq_sum:
  "foldl (\<lambda>sum v. sum + (v - mu)\<^sup>2) a xs = a + sum_list (map (\<lambda>v. (v - mu)\<^sup>2) (xs::real list))"
  by (induction xs arbitrary: a) simp_all

lemma stdDev_sum_list:
  "stdDev xs = (if length xs < 2 then 0
                else sqrt (sum_list (map (\<lambda>v. (v - mean xs)\<^sup>2) xs) / real (length xs)))"
  by (simp add: stdDev_def Let_def foldl_sq_sum)

lemma sum_sq_dev_nonneg: "0 \<le> sum_list (map (\<lambda>v. (v - mu)\<^sup>2) (xs::real list))"
  by (rule sum_list_nonneg) auto

lemma stdDev_nonneg: "0 \<le> stdDev xs"
  by (simp add: stdDev_sum_list sum_sq_dev_nonneg)

lemma stdDev_zero_constant:
  assumes "stdDev xs = 0" and "2 \<le> length xs" and "x \<in> set xs"
  shows "x = mean xs"
proof -
  have nn: "0 \<le> y" if "y \<in> set (map (\<lambda>v. (v - mean xs)\<^sup>2) xs)" for y
    using that by auto
  from assms(1,2) have "sum_list (map (\<lambda>v. (v - mean xs)\<^sup>2) xs) = 0"
    by (auto simp: stdDev_sum_list)
  then have "\<forall>y \<in> set (map (\<lambda>v. (v - mean xs)\<^sup>2) xs). y = 0"
    using sum_list_nonneg_eq_0_iff[OF nn] by blast
  with assms(3) have "(x - mean xs)\<^sup>2 = 0" by auto
  then show ?thesis by simp
qed

lemma mean_constant:
  assumes "xs \<noteq> []" and "\<And>x. x \<in> set xs \<Longrightarrow> x = c"
  shows "mean xs = c"
proof -
  have "map (\<lambda>x. c) xs = xs" using assms(2) by (intro map_idI) simp
  then have "sum_list xs = sum_list (map (\<lambda>x. c) xs)" by simp
  also have "\<dots> = real (length xs) * c" by (simp add: sum_list_triv)
  finally show ?thesis using assms(1) by (simp add: mean_sum_list)
qed

lemma sq_dev_sum_zero:
  assumes "\<And>i. i < n \<Longrightarrow> xs ! i = c"
  shows "sum_list (map (\<lambda>i. (xs ! i - c)\<^sup>2) [0..<n]) = (0::real)"
proof -
  have "sum_list (map (\<lambda>i. (xs ! i - c)\<^sup>2) [0..<n]) = sum_list (map (\<lambda>i. 0) [0..<n])"
    by (rule arg_cong[where f = sum_list], rule map_cong) (simp_all add: assms)
  then show ?thesis by simp
qed

text \<open>A side that is constant over the overlapping prefix gives correlation 0.\<close>

lemma pearsonCorrelation_constant_left:
  assumes "\<And>i. i < min (length xs) (length ys) \<Longrightarrow> xs ! i = c"
  shows "pearsonCorrelation xs ys = 0"
proof (cases "min (length xs) (length ys) < 2")
  case True
  then show ?thesis by (simp add: pearsonCorrelation_def)
next
  case False
  define n where "n = min (length xs) (length ys)"
  have n2: "2 \<le> n" using False unfolding n_def by linarith
  have sl: "slice xs 0 (int n) = take n xs"
    by (simp add: slice_def Let_def n_def min_def)
  have mc: "mean (slice xs 0 (int n)) = c"
    unfolding sl
  proof (rule mean_constant)
    show "take n xs \<noteq> []" using n2 by (auto simp: n_def)
    fix x assume "x \<in> set (take n xs)"
    then obtain i where "i < length (take n xs)" "x = take n xs ! i"
      by (auto simp: in_set_conv_nth)
    then show "x = c" using assms by (simp add: n_def)
  qed
  have "sum_list (map (\<lambda>i. (xs ! i - mean (slice xs 0 (int n)))\<^sup>2) [0..<n]) = 0"
    unfolding mc by (rule sq_dev_sum_zero) (simp add: assms n_def)
  then show ?thesis
    using False
    by (simp add: pearsonCorrelation_def Let_def pearsonSums_sum n_def[symmetric])
qed

lemma pearsonCorrelation_constant_right:
  assumes "\<And>i. i < min (length xs) (length ys) \<Longrightarrow> ys ! i = c"
  shows "pearsonCorrelation xs ys = 0"
proof (cases "min (length xs) (length ys) < 2")
  case True
  then show ?thesis by (simp add: pearsonCorrelation_def)
next
  case False
  define n where "n = min (length xs) (length ys)"
  have n2: "2 \<le> n" using False unfolding n_def by linarith
  have sl: "slice ys 0 (int n) = take n ys"
    by (simp add: slice_def Let_def n_def min_def)
  have mc: "mean (slice ys 0 (int n)) = c"
    unfolding sl
  proof (rule mean_constant)
    show "take n ys \<noteq> []" using n2 by (auto simp: n_def)
    fix y assume "y \<in> set (take n ys)"
    then obtain i where "i < length (take n ys)" "y = take n ys ! i"
      by (auto simp: in_set_conv_nth)
    then show "y = c" using assms by (simp add: n_def)
  qed
  have "sum_list (map (\<lambda>i. (ys ! i - mean (slice ys 0 (int n)))\<^sup>2) [0..<n]) = 0"
    unfolding mc by (rule sq_dev_sum_zero) (simp add: assms n_def)
  then show ?thesis
    using False
    by (simp add: pearsonCorrelation_def Let_def pearsonSums_sum n_def[symmetric])
qed

lemma stdDev_zero_nth:
  assumes "stdDev zs = 0" and "i < length zs" and "2 \<le> length zs"
  shows "zs ! i = mean zs"
  using stdDev_zero_constant[OF assms(1,3)] assms(2) by simp

lemma pearsonCorrelation_zero_variance_left:
  assumes "stdDev xs = 0 \<or> stdDev (take (length ys) xs) = 0"
  shows "pearsonCorrelation xs ys = 0"
proof (cases "min (length xs) (length ys) < 2")
  case True
  then show ?thesis by (simp add: pearsonCorrelation_def)
next
  case False
  from assms show ?thesis
  proof
    assume z: "stdDev xs = 0"
    show ?thesis
    proof (rule pearsonCorrelation_constant_left[where c = "mean xs"])
      fix i assume "i < min (length xs) (length ys)"
      then show "xs ! i = mean xs"
        using False by (intro stdDev_zero_nth[OF z]) linarith+
    qed
  next
    assume z: "stdDev (take (length ys) xs) = 0"
    show ?thesis
    proof (rule pearsonCorrelation_constant_left[where c = "mean (take (length ys) xs)"])
      fix i assume i: "i < min (length xs) (length ys)"
      then have "take (length ys) xs ! i = mean (take (length ys) xs)"
        using False by (intro stdDev_zero_nth[OF z]) (simp_all, linarith+)
      with i show "xs ! i = mean (take (length ys) xs)" by simp
    qed
  qed
qed

lemma pearsonCorrelation_zero_variance_right:
  assumes "stdDev ys = 0 \<or> stdDev (take (length xs) ys) = 0"
  shows "pearsonCorrelation xs ys = 0"
proof (cases "min (length xs) (length ys) < 2")
  case True
  then show ?thesis by (simp add: pearsonCorrelation_def)
next
  case False
  from assms show ?thesis
  proof
    assume z: "stdDev ys = 0"
    show ?thesis
    proof (rule pearsonCorrelation_constant_right[where c = "mean ys"])
      fix i assume "i < min (length xs) (length ys)"
      then show "ys ! i = mean ys"
        using False by (intro stdDev_zero_nth[OF z]) linarith+
    qed
  next
    assume z: "stdDev (take (length xs) ys) = 0"
    show ?thesis
    proof (rule pearsonCorrelation_constant_right[where c = "mean (take (length xs) ys)"])
      fix i assume i: "i < min (length xs) (length ys)"
      then have "take (length xs) ys ! i = mean (take (length xs) ys)"
        using False by (intro stdDev_zero_nth[OF z]) (simp_all, linarith+)
      with i show "ys ! i = mean (take (length xs) ys)" by simp
    qed
  qed
qed

text \<open>
  C7. The neutral defaults: the mean of the empty sequence is 0; the coefficient of
  variation is 0 whenever the mean is 0; the Pearson correlation is 0 when there are
  fewer than two paired points or when a side has standard deviation 0 (as a whole, or
  over the overlapping prefix); the regression of fewer than two values has slope 0,
  \<open>r_squared\<close> 0 and a \<open>predict\<close> that is constantly the single observed value, or 0 for
  the empty input. Each of these is a value the function returns: the source has no
  \<open>throw\<close>, and no branch of the model is an error.
\<close>

theorem neutral_defaults:
  "mean [] = 0
   \<and> (mean values = 0 \<longrightarrow> coefficientOfVariation values = 0)
   \<and> (min (length xs) (length ys) < 2 \<longrightarrow> pearsonCorrelation xs ys = 0)
   \<and> (stdDev xs = 0 \<or> stdDev ys = 0 \<longrightarrow> pearsonCorrelation xs ys = 0)
   \<and> (stdDev (take (length ys) xs) = 0 \<or> stdDev (take (length xs) ys) = 0
        \<longrightarrow> pearsonCorrelation xs ys = 0)
   \<and> (length vs < 2 \<longrightarrow>
        slope (linearRegression vs) = 0
      \<and> r_squared (linearRegression vs) = 0
      \<and> intercept (linearRegression vs) = (if vs = [] then 0 else vs ! 0)
      \<and> (\<forall>x. predict (linearRegression vs) x = (if vs = [] then 0 else vs ! 0)))"
proof -
  have a: "mean [] = 0" by (simp add: mean_def)
  have b: "mean values = 0 \<longrightarrow> coefficientOfVariation values = 0"
    by (simp add: coefficientOfVariation_def)
  have c: "min (length xs) (length ys) < 2 \<longrightarrow> pearsonCorrelation xs ys = 0"
    by (simp add: pearsonCorrelation_def)
  have d: "stdDev xs = 0 \<or> stdDev ys = 0 \<longrightarrow> pearsonCorrelation xs ys = 0"
    using pearsonCorrelation_zero_variance_left[of xs ys]
      pearsonCorrelation_zero_variance_right[of ys xs] by blast
  have e: "stdDev (take (length ys) xs) = 0 \<or> stdDev (take (length xs) ys) = 0
        \<longrightarrow> pearsonCorrelation xs ys = 0"
    using pearsonCorrelation_zero_variance_left[of xs ys]
      pearsonCorrelation_zero_variance_right[of ys xs] by blast
  have f: "length vs < 2 \<longrightarrow>
        slope (linearRegression vs) = 0
      \<and> r_squared (linearRegression vs) = 0
      \<and> intercept (linearRegression vs) = (if vs = [] then 0 else vs ! 0)
      \<and> (\<forall>x. predict (linearRegression vs) x = (if vs = [] then 0 else vs ! 0))"
    by (simp add: linearRegression_short)
  show ?thesis using a b c d e f by blast
qed

theorem neutral_defaults_witness:
  "mean [1, - 1] = 0 \<and> coefficientOfVariation [1, - 1] = 0
   \<and> stdDev [3, 3] = 0 \<and> pearsonCorrelation [3, 3] [1, 2] = 0
   \<and> stdDev (take (length [1, 2 :: real]) [3, 3, 4]) = 0 \<and> pearsonCorrelation [3, 3, 4] [1, 2] = 0
   \<and> min (length [7 :: real]) (length [1, 2 :: real]) < 2 \<and> pearsonCorrelation [7] [1, 2] = 0
   \<and> length [5 :: real] < 2
   \<and> slope (linearRegression [5]) = 0 \<and> r_squared (linearRegression [5]) = 0
   \<and> predict (linearRegression [5]) 9 = 5
   \<and> predict (linearRegression []) 9 = 0"
proof -
  have m: "mean [1, - 1] = 0" by (simp add: mean_def)
  have s: "stdDev [3, 3] = 0" by (simp add: stdDev_def mean_def)
  show ?thesis
    using neutral_defaults[of "[1, - 1]" "[3, 3]" "[1, 2]" "[5]"]
      neutral_defaults[of "[]" "[3, 3, 4]" "[1, 2]" "[]"]
      neutral_defaults[of "[]" "[7]" "[1, 2]" "[]"]
    by (simp add: m s)
qed

subsection \<open>Forecast\<close>

lemma filter_defined: "filter (\<lambda>v. \<not> isNaN v) vs = map Num (definedValues vs)"
  by (induction vs rule: definedValues.induct) simp_all

lemma orZero_atLast_defined:
  "orZero (atLast (map Num ds)) = (if ds = [] then 0 else last ds)"
  by (simp add: atLast_def last_map)

lemma definedValues_all_NaN:
  "(\<And>i. i < length vs \<Longrightarrow> vs ! i = NaN) \<Longrightarrow> definedValues vs = []"
proof (induction vs rule: definedValues.induct)
  case (2 x vs)
  from "2.prems"[of 0] show ?case by simp
next
  case (3 vs)
  have "definedValues vs = []"
  proof (rule "3.IH")
    fix i assume "i < length vs"
    then show "vs ! i = NaN" using "3.prems"[of "Suc i"] by simp
  qed
  then show ?case by simp
next
  case (4 vs)
  from "4.prems"[of 0] show ?case by simp
qed simp

lemma generateForecast_length:
  "length (generateForecast revenues periods maWindow emaAlpha) = nat periods"
  by (simp add: generateForecast_def Let_def)

text \<open>The point at offset \<open>i\<close>, field by field.\<close>

lemma generateForecast_nth:
  assumes "i < nat periods"
  shows "generateForecast revenues periods maWindow emaAlpha ! i =
    \<lparr>linear = predict (linearRegression revenues) (real (length revenues + i)),
     ma = (let ds = definedValues (movingAverage revenues maWindow)
           in if ds = [] then 0 else last ds),
     ema = (let es = exponentialMovingAverage revenues emaAlpha
            in if es = [] then 0 else last es),
     wma = (let ds = definedValues (weightedMovingAverage revenues maWindow)
            in if ds = [] then 0 else last ds),
     lower = predict (linearRegression revenues) (real (length revenues + i))
             - 196 / 100 * stdDev (map (\<lambda>j. revenues ! j - predict (linearRegression revenues) (real j))
                                      [0..<length revenues]),
     upper = predict (linearRegression revenues) (real (length revenues + i))
             + 196 / 100 * stdDev (map (\<lambda>j. revenues ! j - predict (linearRegression revenues) (real j))
                                      [0..<length revenues])\<rparr>"
  using assms
  by (simp add: generateForecast_def Let_def filter_defined orZero_atLast_defined)

lemma exponentialMovingAverage_empty_iff:
  "exponentialMovingAverage revenues alpha = [] \<longleftrightarrow> revenues = []"
  by (simp add: exponentialMovingAverage_def split: list.splits)

text \<open>
  C4. For a history of length \<open>n\<close> the forecast has \<open>periods\<close> points. At every offset
  \<open>i\<close>: \<open>linear\<close> is the regression's \<open>predict (n + i)\<close>; \<open>ma\<close>, \<open>ema\<close> and
  \<open>wma\<close> are the last defined value of their smoother over the whole history, where
  it has one, and are the same at every offset; \<open>lower\<close> and \<open>upper\<close> are
  \<open>linear - 1.96 * se\<close> and \<open>linear + 1.96 * se\<close>, with \<open>se\<close> the standard deviation
  of the regression's residuals over the history. So the band has the same width at
  every offset and \<open>lower \<le> linear \<le> upper\<close>.
\<close>

theorem generateForecast_points:
  fixes revenues :: "real list" and periods maWindow :: int and emaAlpha :: real
  defines "reg \<equiv> linearRegression revenues"
  defines "n \<equiv> length revenues"
  defines "se \<equiv> stdDev (map (\<lambda>j. revenues ! j - predict reg (real j)) [0..<n])"
  defines "pts \<equiv> generateForecast revenues periods maWindow emaAlpha"
  shows "length pts = nat periods
       \<and> 0 \<le> se
       \<and> (i < nat periods \<and> j < nat periods \<longrightarrow>
            linear (pts ! i) = predict reg (real (n + i))
          \<and> (definedValues (movingAverage revenues maWindow) \<noteq> [] \<longrightarrow>
               ma (pts ! i) = last (definedValues (movingAverage revenues maWindow)))
          \<and> (revenues \<noteq> [] \<longrightarrow>
               ema (pts ! i) = last (exponentialMovingAverage revenues emaAlpha))
          \<and> (definedValues (weightedMovingAverage revenues maWindow) \<noteq> [] \<longrightarrow>
               wma (pts ! i) = last (definedValues (weightedMovingAverage revenues maWindow)))
          \<and> ma (pts ! i) = ma (pts ! j) \<and> ema (pts ! i) = ema (pts ! j)
          \<and> wma (pts ! i) = wma (pts ! j)
          \<and> lower (pts ! i) = linear (pts ! i) - 196 / 100 * se
          \<and> upper (pts ! i) = linear (pts ! i) + 196 / 100 * se
          \<and> upper (pts ! i) - lower (pts ! i) = upper (pts ! j) - lower (pts ! j)
          \<and> lower (pts ! i) \<le> linear (pts ! i) \<and> linear (pts ! i) \<le> upper (pts ! i))"
proof -
  have se0: "0 \<le> se" unfolding se_def by (rule stdDev_nonneg)
  have len: "length pts = nat periods" by (simp add: pts_def generateForecast_length)
  have "linear (pts ! i) = predict reg (real (n + i))
          \<and> (definedValues (movingAverage revenues maWindow) \<noteq> [] \<longrightarrow>
               ma (pts ! i) = last (definedValues (movingAverage revenues maWindow)))
          \<and> (revenues \<noteq> [] \<longrightarrow>
               ema (pts ! i) = last (exponentialMovingAverage revenues emaAlpha))
          \<and> (definedValues (weightedMovingAverage revenues maWindow) \<noteq> [] \<longrightarrow>
               wma (pts ! i) = last (definedValues (weightedMovingAverage revenues maWindow)))
          \<and> ma (pts ! i) = ma (pts ! j) \<and> ema (pts ! i) = ema (pts ! j)
          \<and> wma (pts ! i) = wma (pts ! j)
          \<and> lower (pts ! i) = linear (pts ! i) - 196 / 100 * se
          \<and> upper (pts ! i) = linear (pts ! i) + 196 / 100 * se
          \<and> upper (pts ! i) - lower (pts ! i) = upper (pts ! j) - lower (pts ! j)
          \<and> lower (pts ! i) \<le> linear (pts ! i) \<and> linear (pts ! i) \<le> upper (pts ! i)"
    if ij: "i < nat periods" "j < nat periods"
  proof -
    note pi = generateForecast_nth[OF ij(1), of revenues maWindow emaAlpha]
    note pj = generateForecast_nth[OF ij(2), of revenues maWindow emaAlpha]
    have lin: "linear (pts ! i) = predict reg (real (n + i))"
      by (simp add: pts_def pi reg_def n_def)
    have m: "definedValues (movingAverage revenues maWindow) \<noteq> [] \<longrightarrow>
              ma (pts ! i) = last (definedValues (movingAverage revenues maWindow))"
      by (simp add: pts_def pi Let_def)
    have e: "revenues \<noteq> [] \<longrightarrow>
              ema (pts ! i) = last (exponentialMovingAverage revenues emaAlpha)"
      by (simp add: pts_def pi Let_def exponentialMovingAverage_empty_iff)
    have w: "definedValues (weightedMovingAverage revenues maWindow) \<noteq> [] \<longrightarrow>
              wma (pts ! i) = last (definedValues (weightedMovingAverage revenues maWindow))"
      by (simp add: pts_def pi Let_def)
    have flat: "ma (pts ! i) = ma (pts ! j)" "ema (pts ! i) = ema (pts ! j)"
      "wma (pts ! i) = wma (pts ! j)"
      by (simp_all add: pts_def pi pj)
    have lo: "lower (pts ! i) = linear (pts ! i) - 196 / 100 * se"
      and up: "upper (pts ! i) = linear (pts ! i) + 196 / 100 * se"
      by (simp_all add: pts_def pi se_def reg_def n_def)
    have loj: "lower (pts ! j) = linear (pts ! j) - 196 / 100 * se"
      and upj: "upper (pts ! j) = linear (pts ! j) + 196 / 100 * se"
      by (simp_all add: pts_def pj se_def reg_def n_def)
    have width: "upper (pts ! i) - lower (pts ! i) = upper (pts ! j) - lower (pts ! j)"
      by (simp add: lo up loj upj)
    have ord: "lower (pts ! i) \<le> linear (pts ! i)" "linear (pts ! i) \<le> upper (pts ! i)"
      using se0 by (simp_all add: lo up)
    show ?thesis
      using lin m e w flat lo up width ord by blast
  qed
  then show ?thesis using len se0 by blast
qed

theorem generateForecast_points_witness:
  "(0::nat) < nat 2 \<and> (1::nat) < nat 2
   \<and> definedValues (movingAverage [3, 1, 1, 3] 2) \<noteq> []
   \<and> definedValues (weightedMovingAverage [3, 1, 1, 3] 2) \<noteq> []
   \<and> length (generateForecast [3, 1, 1, 3] 2 2 (1 / 2)) = 2
   \<and> linear (generateForecast [3, 1, 1, 3] 2 2 (1 / 2) ! 0) = 2
   \<and> ma (generateForecast [3, 1, 1, 3] 2 2 (1 / 2) ! 0) = 2
   \<and> ema (generateForecast [3, 1, 1, 3] 2 2 (1 / 2) ! 0) = 9 / 4
   \<and> wma (generateForecast [3, 1, 1, 3] 2 2 (1 / 2) ! 0) = 7 / 3
   \<and> ma (generateForecast [3, 1, 1, 3] 2 2 (1 / 2) ! 1) = 2
   \<and> lower (generateForecast [3, 1, 1, 3] 2 2 (1 / 2) ! 0) = 4 / 100
   \<and> upper (generateForecast [3, 1, 1, 3] 2 2 (1 / 2) ! 0) = 396 / 100"
proof -
  have p: "predict (linearRegression [3, 1, 1, 3]) (real (length [3, 1, 1, 3 :: real] + 0)) = 2"
    by code_simp
  have r: "map (\<lambda>j. [3, 1, 1, 3] ! j - predict (linearRegression [3, 1, 1, 3]) (real j))
              [0..<length [3, 1, 1, 3 :: real]] = [1, - 1, - 1, 1]"
    by code_simp
  have se: "stdDev [1, - 1, - 1, 1] = 1"
    by (simp add: stdDev_def mean_def)
  have m: "movingAverage [3, 1, 1, 3] 2 = [NaN, Num 2, Num 1, Num 2]"
    by code_simp
  have w: "weightedMovingAverage [3, 1, 1, 3] 2 = [NaN, Num (5 / 3), Num 1, Num (7 / 3)]"
    by code_simp
  have e: "exponentialMovingAverage [3, 1, 1, 3] (1 / 2) = [3, 2, 3 / 2, 9 / 4]"
    by code_simp
  show ?thesis
    using generateForecast_points[of "[3, 1, 1, 3]" 2 2 "1 / 2" 0 1]
    unfolding p r se m w e by simp
qed

text \<open>
  C10. When the history is shorter than the moving-average window, every point of the
  forecast has \<open>ma = 0\<close> and \<open>wma = 0\<close>, and for the empty history \<open>ema = 0\<close> too:
  the flat projections fall back to the number 0.
\<close>

theorem generateForecast_short_history:
  assumes "int (length revenues) < maWindow" and "i < nat periods"
  shows "ma (generateForecast revenues periods maWindow emaAlpha ! i) = 0
       \<and> wma (generateForecast revenues periods maWindow emaAlpha ! i) = 0
       \<and> (revenues = [] \<longrightarrow> ema (generateForecast revenues periods maWindow emaAlpha ! i) = 0)"
proof -
  have "definedValues (movingAverage revenues maWindow) = []"
    by (rule definedValues_all_NaN)
       (use assms(1) in \<open>simp add: movingAverage_length movingAverage_nth\<close>)
  moreover have "definedValues (weightedMovingAverage revenues maWindow) = []"
    by (rule definedValues_all_NaN)
       (use assms(1) in \<open>simp add: weightedMovingAverage_length weightedMovingAverage_nth\<close>)
  ultimately show ?thesis
    by (simp add: generateForecast_nth[OF assms(2)] exponentialMovingAverage_def)
qed

theorem generateForecast_short_history_witness:
  "int (length [1, 2 :: real]) < 7 \<and> (0::nat) < nat 1
   \<and> ma (generateForecast [1, 2] 1 7 (3 / 10) ! 0) = 0
   \<and> wma (generateForecast [1, 2] 1 7 (3 / 10) ! 0) = 0
   \<and> int (length ([] :: real list)) < 7
   \<and> ema (generateForecast [] 1 7 (3 / 10) ! 0) = 0"
  using generateForecast_short_history[of "[1, 2]" 7 0 1 "3 / 10"]
        generateForecast_short_history[of "[]" 7 0 1 "3 / 10"]
  by simp

subsection \<open>Additive decomposition\<close>

lemma weekdayLoop_step_length:
  "length (fst (foldl (\<lambda>(weekdayTotals, weekdayCounts) i.
              (case dayOf getDay dates i of
                 None \<Rightarrow> (weekdayTotals, weekdayCounts)
               | Some dow \<Rightarrow>
                   (weekdayTotals[dow := weekdayTotals ! dow + (revenues ! i - trends ! i)],
                    weekdayCounts[dow := weekdayCounts ! dow + 1])))
           (totals, counts) is)) = length (totals :: real list)"
  for counts :: "nat list"
  by (induction "is" arbitrary: totals counts) (simp_all split: option.splits)

lemma weekdayLoop_length:
  "length (fst (weekdayLoop getDay dates revenues trends)) = 7"
  unfolding weekdayLoop_def by (simp add: weekdayLoop_step_length)

lemma additiveDecomposition_length:
  "length (additiveDecomposition getDay dates revenues) = length dates"
  by (simp add: additiveDecomposition_def Let_def split: prod.splits)

text \<open>
  C3 as amended. For every input and every produced point whose index \<open>i\<close> has a
  revenue (\<open>i < length revenues\<close>) and whose date has a weekday, the revenue, the
  trend, the seasonal term and the residual are numbers, the residual is the revenue
  minus the trend minus the seasonal term, and the revenue equals trend + seasonal +
  residual exactly.
\<close>

theorem additiveDecomposition_additive:
  assumes "i < length dates" and "i < length revenues"
    and "getDay (dates ! i) = Some d" and "d < 7"
  defines "p \<equiv> additiveDecomposition getDay dates revenues ! i"
  shows "\<exists>s. date p = dates ! i
           \<and> revenue p = Num (revenues ! i)
           \<and> trend p = Num (predict (linearRegression revenues) (real i))
           \<and> seasonal p = Num s
           \<and> residual p = Num (revenues ! i - predict (linearRegression revenues) (real i) - s)
           \<and> revenues ! i = predict (linearRegression revenues) (real i) + s
                + (revenues ! i - predict (linearRegression revenues) (real i) - s)
           \<and> jsEq (revenue p) (jsAdd (jsAdd (trend p) (seasonal p)) (residual p))"
proof -
  obtain totals counts where wl: "weekdayLoop getDay dates revenues
      (map (\<lambda>i. predict (linearRegression revenues) (real i)) [0..<length revenues]) = (totals, counts)"
    by (cases "weekdayLoop getDay dates revenues
      (map (\<lambda>i. predict (linearRegression revenues) (real i)) [0..<length revenues])") 
  have "length totals = 7"
    using weekdayLoop_length[of getDay dates revenues
      "map (\<lambda>i. predict (linearRegression revenues) (real i)) [0..<length revenues]"]
    by (simp add: wl)
  then show ?thesis
    using assms(1-4)
    by (simp add: p_def additiveDecomposition_def Let_def wl idx_def)
qed

theorem additiveDecomposition_additive_witness:
  "(2::nat) < length [''2024-01-01'', ''2024-01-02'', ''2024-01-08'']
   \<and> (2::nat) < length [100, 130, 120 :: real]
   \<and> getDayExample ([''2024-01-01'', ''2024-01-02'', ''2024-01-08''] ! 2) = Some 1
   \<and> (1::nat) < 7
   \<and> additiveDecomposition getDayExample
         [''2024-01-01'', ''2024-01-02'', ''2024-01-08''] [100, 130, 120] ! 2 =
       \<lparr>date = ''2024-01-08'', revenue = Num 120, trend = Num (380 / 3),
        seasonal = Num (- (160 / 21)), residual = Num (20 / 21)\<rparr>
   \<and> jsEq (Num 120) (jsAdd (jsAdd (Num (380 / 3)) (Num (- (160 / 21)))) (Num (20 / 21)))"
proof -
  have h1: "(2::nat) < length [''2024-01-01'', ''2024-01-02'', ''2024-01-08'']" by simp
  have h2: "(2::nat) < length [100, 130, 120 :: real]" by simp
  have g: "getDayExample ([''2024-01-01'', ''2024-01-02'', ''2024-01-08''] ! 2) = Some 1"
    by (simp add: getDayExample_def)
  have h4: "(1::nat) < 7" by simp
  have p: "additiveDecomposition getDayExample
         [''2024-01-01'', ''2024-01-02'', ''2024-01-08''] [100, 130, 120] ! 2 =
       \<lparr>date = ''2024-01-08'', revenue = Num 120, trend = Num (380 / 3),
        seasonal = Num (- (160 / 21)), residual = Num (20 / 21)\<rparr>"
    by code_simp
  show ?thesis
    using additiveDecomposition_additive[of 2 "[''2024-01-01'', ''2024-01-02'', ''2024-01-08'']"
        "[100, 130, 120]" getDayExample 1, OF h1 h2 g h4] h1 h2 g h4
    unfolding p by simp
qed

text \<open>
  C3 as stated, for every input, does not hold: a date without a revenue at its index
  (here one date and no revenue) and a date that has no weekday each produce a point
  whose residual is NaN, which is equal to nothing.
\<close>

theorem additiveDecomposition_not_additive:
  "\<not> jsEq (revenue (additiveDecomposition getDayExample [''2024-01-01''] [] ! 0))
        (jsAdd (jsAdd (trend (additiveDecomposition getDayExample [''2024-01-01''] [] ! 0))
                      (seasonal (additiveDecomposition getDayExample [''2024-01-01''] [] ! 0)))
               (residual (additiveDecomposition getDayExample [''2024-01-01''] [] ! 0)))
   \<and> residual (additiveDecomposition getDayExample [''2024-01-01''] [] ! 0) = NaN
   \<and> \<not> jsEq (revenue (additiveDecomposition getDayExample [''not a date''] [120] ! 0))
        (jsAdd (jsAdd (trend (additiveDecomposition getDayExample [''not a date''] [120] ! 0))
                      (seasonal (additiveDecomposition getDayExample [''not a date''] [120] ! 0)))
               (residual (additiveDecomposition getDayExample [''not a date''] [120] ! 0)))
   \<and> residual (additiveDecomposition getDayExample [''not a date''] [120] ! 0) = NaN"
  by (simp add: additiveDecomposition_def Let_def idx_def getDayExample_def
      split: prod.splits)

end
